theory Spec2Isabelle
  imports Main
begin

section \<open>Values, errors and the host\<close>

text \<open>
  The server is TypeScript on Node. Values of type \<open>any\<close> that travel as JSON are
  modelled by \<open>json\<close>; an object that is only built and looked up by key is a map
  from property names to values. A thrown JavaScript error is a value of \<open>js_error\<close>,
  and a function that may throw returns \<open>js_error + 'a\<close>. The functions of the source
  are \<open>async\<close> and await each step in turn. Each function is first written as the
  call run from its start to its end; for the session the calls of \<open>runProject\<close> are
  then resumed from one \<open>await\<close> to the next, so that calls can overlap.
\<close>

datatype json =
    JNull
  | JBool bool
  | JNum int
  | JStr string
  | JArr "json list"
  | JObj "(string \<times> json) list"

datatype js_error =
    Error string          \<comment> \<open>\<open>new Error(message)\<close>\<close>
  | SyntaxError string    \<comment> \<open>thrown by \<open>JSON.parse\<close> on the text given\<close>
  | SystemError string    \<comment> \<open>thrown by \<open>fs\<close> or \<open>child_process\<close>, with its code\<close>
  | ExitError nat         \<comment> \<open>the rejection of \<open>exec\<close> when the child exits with this code\<close>

definition error_text :: "js_error \<Rightarrow> string" where
  "error_text e =
     (case e of
        Error m \<Rightarrow> ''Error: '' @ m
      | SyntaxError m \<Rightarrow> ''SyntaxError: '' @ m
      | SystemError c \<Rightarrow> ''Error: '' @ c
      | ExitError n \<Rightarrow> ''Error: Command failed'')"

text \<open>The filesystem: the paths that exist, each with its content.\<close>

type_synonym fs = "string \<rightharpoonup> string"

definition existsSync :: "fs \<Rightarrow> string \<Rightarrow> bool" where
  "existsSync fls p = (fls p \<noteq> None)"

text \<open>
  The promise of \<open>promisify(exec)\<close> resolves with stdout and stderr when the shell
  exits with code 0. Otherwise it rejects with an error object that carries the
  \<open>stdout\<close> and \<open>stderr\<close> properties (\<open>None\<close> when a property is undefined).
\<close>

datatype exec_outcome =
    Resolved string string
  | Rejected js_error "string option" "string option"

text \<open>
  What Node and the operating system provide is a parameter of the model:
  \<open>os.platform()\<close>, \<open>process.env.GODOT_PATH\<close>, \<open>os.tmpdir()\<close>, \<open>path.join\<close>,
  \<open>String.prototype.trim\<close> (it removes the white space and the line terminators of
  ECMAScript at both ends, U+00A0 and U+FEFF among them),
  the promisified \<open>exec\<close> (command string, \<open>cwd\<close> option, the filesystem the child
  sees), \<open>JSON.parse\<close> (\<open>None\<close> is its SyntaxError), \<open>JSON.stringify\<close>, and the paths
  the filesystem refuses to write or remove.
\<close>

record host =
  platform :: string
  env_GODOT_PATH :: "string option"
  tmpdir :: string
  path_join :: "string \<Rightarrow> string \<Rightarrow> string"
  trim :: "string \<Rightarrow> string"
  exec :: "string \<Rightarrow> string option \<Rightarrow> fs \<Rightarrow> exec_outcome"
  json_parse :: "string \<Rightarrow> json option"
  json_stringify :: "(string \<rightharpoonup> json) \<Rightarrow> string"
  locked :: "string \<Rightarrow> bool"

text \<open>JavaScript truthiness of a \<open>string | null | undefined\<close>, and \<open>v || ''\<close>.\<close>

definition truthy :: "string option \<Rightarrow> bool" where
  "truthy v = (case v of None \<Rightarrow> False | Some s \<Rightarrow> s \<noteq> [])"

definition or_empty :: "string option \<Rightarrow> string" where
  "or_empty v = (case v of None \<Rightarrow> [] | Some s \<Rightarrow> s)"

text \<open>\<open>Array.prototype.join\<close>.\<close>

fun array_join :: "string \<Rightarrow> string list \<Rightarrow> string" where
  "array_join sep [] = []"
| "array_join sep [x] = x"
| "array_join sep (x # y # ys) = x @ sep @ array_join sep (y # ys)"

text \<open>The decimal text of a number, as a template literal prints \<open>Date.now()\<close>.\<close>

fun digits :: "nat \<Rightarrow> string" where
  "digits n =
     (if n < 10 then [char_of (48 + n)]
      else digits (n div 10) @ [char_of (48 + n mod 10)])"

declare digits.simps [simp del]

definition bs :: string where
  "bs = [CHR 0x5C]"

section \<open>Executable Locator (GODOT_PATHS, findGodotPath)\<close>

definition GODOT_PATHS :: "string \<Rightarrow> string list option" where
  "GODOT_PATHS key =
     (if key = ''darwin'' then
        Some [''/Applications/Godot.app/Contents/MacOS/Godot'',
              ''/Applications/Godot_4.app/Contents/MacOS/Godot'',
              ''/Applications/Godot_4.2.app/Contents/MacOS/Godot'']
      else if key = ''linux'' then
        Some [''/usr/bin/godot'', ''/usr/local/bin/godot'']
      else if key = ''win32'' then
        Some [''C:'' @ bs @ ''Program Files'' @ bs @ ''Godot'' @ bs @ ''Godot.exe'',
              ''C:'' @ bs @ ''Program Files (x86)'' @ bs @ ''Godot'' @ bs @ ''Godot.exe'']
      else None)"

text \<open>The environment variable: used when it is set, not empty, and exists.\<close>

definition env_override :: "host \<Rightarrow> fs \<Rightarrow> string option" where
  "env_override h fls =
     (case env_GODOT_PATH h of
        None \<Rightarrow> None
      | Some p \<Rightarrow> if p \<noteq> [] \<and> existsSync fls p then Some p else None)"

text \<open>The \<open>for\<close> loop over the platform's list.\<close>

fun first_existing :: "fs \<Rightarrow> string list \<Rightarrow> string option" where
  "first_existing fls [] = None"
| "first_existing fls (p # ps) =
     (if existsSync fls p then Some p else first_existing fls ps)"

text \<open>The \<open>try\<close> block around \<open>which godot\<close>; the \<open>catch\<close> is empty.\<close>

definition which_godot :: "host \<Rightarrow> fs \<Rightarrow> string option" where
  "which_godot h fls =
     (if platform h \<noteq> ''win32'' then
        (case exec h ''which godot'' None fls of
           Resolved out err \<Rightarrow>
             (let found = trim h out
              in if found \<noteq> [] \<and> existsSync fls found then Some found else None)
         | Rejected error out err \<Rightarrow> None)
      else None)"

text \<open>\<open>GODOT_PATHS[platform] || []\<close>.\<close>

definition potentialPaths :: "host \<Rightarrow> string list" where
  "potentialPaths h = (case GODOT_PATHS (platform h) of Some ps \<Rightarrow> ps | None \<Rightarrow> [])"

definition findGodotPath :: "host \<Rightarrow> fs \<Rightarrow> string option" where
  "findGodotPath h fls =
     (case env_override h fls of
        Some p \<Rightarrow> Some p
      | None \<Rightarrow>
          (case first_existing fls (potentialPaths h) of
             Some p \<Rightarrow> Some p
           | None \<Rightarrow> which_godot h fls))"

section \<open>Process Runner (runGodotCommand)\<close>

record command_result =
  stdout :: string
  stderr :: string

text \<open>The template literal \<open>`"${godotPath}" ${args.join(' ')}`\<close>.\<close>

definition command_line :: "string \<Rightarrow> string list \<Rightarrow> string" where
  "command_line exe args = ''\"'' @ exe @ ''\" '' @ array_join '' '' args"

definition runGodotCommand ::
  "host \<Rightarrow> fs \<Rightarrow> string \<Rightarrow> string list \<Rightarrow> string option \<Rightarrow> js_error + command_result" where
  "runGodotCommand h fls exe args cwd =
     (case exec h (command_line exe args) cwd fls of
        Resolved out err \<Rightarrow> Inr \<lparr>stdout = out, stderr = err\<rparr>
      | Rejected error out err \<Rightarrow>
          if truthy out \<or> truthy err
          then Inr \<lparr>stdout = or_empty out, stderr = or_empty err\<rparr>
          else Inl error)"

definition isGodotProject :: "host \<Rightarrow> fs \<Rightarrow> string \<Rightarrow> bool" where
  "isGodotProject h fls projectPath = existsSync fls (path_join h projectPath ''project.godot'')"

section \<open>The state of the server\<close>

text \<open>
  A child process started by \<open>runProject\<close>: what was spawned, whether \<open>kill()\<close> was called
  on it, and \<open>output_buf\<close>, the variable \<open>output\<close> its two \<open>data\<close> handlers append to. A handle is the
  index of the process in \<open>procs\<close>.
\<close>

record proc =
  program :: string
  argv :: "string list"
  killed :: bool
  output_buf :: string

text \<open>What was done to child processes, in the order it was done.\<close>

datatype proc_event = Spawned nat | Killed nat

text \<open>
  The filesystem, the successful \<open>writeFileSync\<close> calls in order, the lines of
  \<open>console.error\<close>, \<open>Date.now()\<close>, and the module variables \<open>gdScriptPath\<close>,
  \<open>godotPath\<close> and \<open>godotProcess\<close>, the processes spawned and the record of
  \<open>spawn\<close> and \<open>kill()\<close> calls.
\<close>

record world =
  files :: fs
  written :: "string list"
  console :: "string list"
  clock :: nat
  gdScriptPath :: "string option"
  godotPath :: "string option"
  godotProcess :: "nat option"
  procs :: "proc list"
  events :: "proc_event list"

definition writeFileSync :: "host \<Rightarrow> string \<Rightarrow> string \<Rightarrow> world \<Rightarrow> js_error + world" where
  "writeFileSync h p content w =
     (if locked h p then Inl (SystemError ''EACCES'')
      else Inr (w\<lparr>files := (files w)(p \<mapsto> content), written := written w @ [p]\<rparr>))"

definition unlinkSync :: "host \<Rightarrow> string \<Rightarrow> world \<Rightarrow> js_error + world" where
  "unlinkSync h p w =
     (if files w p = None then Inl (SystemError ''ENOENT'')
      else if locked h p then Inl (SystemError ''EACCES'')
      else Inr (w\<lparr>files := (files w)(p := None)\<rparr>))"

definition console_error :: "string \<Rightarrow> world \<Rightarrow> world" where
  "console_error line w = w\<lparr>console := console w @ [line]\<rparr>"

section \<open>Result extraction (the end of runGodotOperation)\<close>

text \<open>
  \<open>stdout.match(/{[\s\S]*}/)\<close>: a regular expression without the global flag is tried
  at every start position from the left; at a start position it needs an opening brace,
  then \<open>[\s\S]*\<close> takes as many characters as it can (any character at all) and gives
  them back one at a time until a closing brace follows.
\<close>

fun match_rest :: "string \<Rightarrow> string option" where
  "match_rest [] = None"
| "match_rest (c # cs) =
     (case match_rest cs of
        Some m \<Rightarrow> Some (c # m)
      | None \<Rightarrow> if c = CHR ''}'' then Some [c] else None)"

fun match_here :: "string \<Rightarrow> string option" where
  "match_here [] = None"
| "match_here (c # cs) =
     (if c = CHR ''{'' then map_option ((#) c) (match_rest cs) else None)"

fun regex_match :: "string \<Rightarrow> string option" where
  "regex_match [] = None"
| "regex_match (c # cs) =
     (case match_here (c # cs) of
        Some m \<Rightarrow> Some m
      | None \<Rightarrow> regex_match cs)"

text \<open>
  The span in the specification's words: from the first opening brace of the text
  through the last closing brace of the text.
\<close>

definition first_open :: "string \<Rightarrow> nat option" where
  "first_open s =
     (if CHR ''{'' \<in> set s then Some (length (takeWhile (\<lambda>c. c \<noteq> CHR ''{'') s)) else None)"

definition last_close :: "string \<Rightarrow> nat option" where
  "last_close s =
     (if CHR ''}'' \<in> set s
      then Some (length s - 1 - length (takeWhile (\<lambda>c. c \<noteq> CHR ''}'') (rev s)))
      else None)"

definition greedy_span :: "string \<Rightarrow> string option" where
  "greedy_span s =
     (case first_open s of
        None \<Rightarrow> None
      | Some i \<Rightarrow>
          (case last_close s of
             None \<Rightarrow> None
           | Some j \<Rightarrow> if i < j then Some (take (j + 1 - i) (drop i s)) else None))"

text \<open>
  The body of the \<open>try\<close> block: parse the match, or throw "No JSON found" when there is
  none.
\<close>

definition try_parse :: "host \<Rightarrow> string \<Rightarrow> js_error + json" where
  "try_parse h out =
     (case regex_match out of
        Some m \<Rightarrow>
          (case json_parse h m of
             Some result \<Rightarrow> Inr result
           | None \<Rightarrow> Inl (SyntaxError m))
      | None \<Rightarrow> Inl (Error (''No JSON found in output: '' @ out)))"

text \<open>The \<open>catch\<close> around it replaces whatever was thrown inside.\<close>

definition parse_result :: "host \<Rightarrow> string \<Rightarrow> js_error + json" where
  "parse_result h out =
     (case try_parse h out of
        Inr result \<Rightarrow> Inr result
      | Inl error \<Rightarrow>
          Inl (Error (''Failed to parse GDScript operation result: '' @ out)))"

section \<open>Operation Script Bridge (initOperationsScript, runGodotOperation)\<close>

definition gdScriptContent :: string where
  "gdScriptContent = array_join ''\<newline>''
     [''@tool'',
      ''extends SceneTree'',
      '''',
      ''# Operations script for Godot MCP Server'',
      ''var result = {}'',
      '''',
      ''func _init():'',
      ''    var args = OS.get_cmdline_args()'',
      ''    '',
      ''    # Better error handling for arguments'',
      ''    if args.size() < 2:'',
      ''        print_error(\"Missing operation parameters\")'',
      ''        quit(1)'',
      ''        return'',
      ''    '',
      ''    # Read operation data from file instead of command line'',
      ''    var json_file_path = args[1]'',
      ''    if not FileAccess.file_exists(json_file_path):'',
      ''        print_error(\"JSON file not found: \" + json_file_path)'',
      ''        quit(1)'',
      ''        return'',
      ''    '',
      ''    # Read the file content'',
      ''    var file = FileAccess.open(json_file_path, FileAccess.READ)'',
      ''    var json_text = file.get_as_text()'',
      ''    file.close()'',
      ''    '',
      ''    # Parse JSON'',
      ''    var json = JSON.new()'',
      ''    var parse_result = json.parse(json_text)'',
      ''    if parse_result != OK:'',
      ''        print_error(\"Failed to parse JSON: \" + json.get_error_message() + \" at line \" + str(json.get_error_line()))'',
      ''        quit(1)'',
      ''        return'',
      ''    '',
      ''    var operation_data = json.get_data()'',
      ''    if operation_data == null:'',
      ''        print_error(\"Invalid JSON data\")'',
      ''        quit(1)'',
      ''        return'',
      ''    '',
      ''    # Handle the operation'',
      ''    handle_operation(operation_data)'',
      ''    quit()'',
      '''',
      ''func handle_operation(data):'',
      ''    if not data.has(\"operation\"):'',
      ''        print_error(\"Missing operation type\")'',
      ''        return'',
      ''    '',
      ''    var operation = data[\"operation\"]'',
      ''    print(\"Executing operation: \" + operation)'',
      ''    '',
      ''    match operation:'',
      ''        \"get_scene_tree\":'',
      ''            get_scene_tree(data)'',
      ''        \"create_scene\":'',
      ''            create_scene(data)'',
      ''        \"add_node\":'',
      ''            add_node(data)'',
      ''        _:'',
      ''            print_error(\"Unknown operation: \" + operation)'',
      '''',
      ''func create_scene(data):'',
      ''    if not data.has(\"projectPath\") or not data.has(\"sceneName\"):'',
      ''        print_error(\"Missing required parameters for create_scene\")'',
      ''        return'',
      ''    '',
      ''    var project_path = data[\"projectPath\"]'',
      ''    var scene_name = data[\"sceneName\"]'',
      ''    var node_type = \"Node2D\"  # Default'',
      ''    '',
      ''    if data.has(\"nodeType\"):'',
      ''        node_type = data[\"nodeType\"]'',
      ''    '',
      ''    print(\"Creating scene: \" + scene_name + \" with root node type: \" + node_type)'',
      ''    '',
      ''    # Create the scene'',
      ''    var scene = SceneTree.new()'',
      ''    var root = Node.new()'',
      ''    '',
      ''    # Try to create the desired node type dynamically'',
      ''    var script = GDScript.new()'',
      ''    script.source_code = \"extends RefCounted'' @ bs @ ''nfunc create():'' @ bs @ ''n'' @ bs @ ''treturn \" + node_type + \".new()\"'',
      ''    script.reload()'',
      ''    var root_node = script.new().create()'',
      ''    '',
      ''    if root_node == null:'',
      ''        print_error(\"Failed to create node of type: \" + node_type)'',
      ''        return'',
      ''    '',
      ''    root_node.name = scene_name.get_file().get_basename()'',
      ''    '',
      ''    # Save the scene'',
      ''    var scene_path = \"res://scenes/\"'',
      ''    if not DirAccess.dir_exists_absolute(project_path + \"/scenes\"):'',
      ''        DirAccess.make_dir_recursive_absolute(project_path + \"/scenes\")'',
      ''    '',
      ''    var full_path = project_path + \"/scenes/\" + scene_name + \".tscn\"'',
      ''    var packed_scene = PackedScene.new()'',
      ''    packed_scene.pack(root_node)'',
      ''    '',
      ''    var save_result = ResourceSaver.save(packed_scene, full_path)'',
      ''    if save_result != OK:'',
      ''        print_error(\"Failed to save scene to: \" + full_path + \", error: \" + str(save_result))'',
      ''        return'',
      ''    '',
      ''    result = {'',
      ''        \"success\": true,'',
      ''        \"message\": \"Scene created at \" + full_path'',
      ''    }'',
      ''    print_json(result)'',
      '''',
      ''func get_scene_tree(data):'',
      ''    # Implementation for getting scene tree'',
      ''    result = {'',
      ''        \"success\": true,'',
      ''        \"data\": {'',
      ''            \"name\": \"Scene Tree Example\",'',
      ''            \"nodes\": ['',
      ''                {\"name\": \"Root\", \"type\": \"Node3D\"},'',
      ''                {\"name\": \"Camera\", \"type\": \"Camera3D\"}'',
      ''            ]'',
      ''        }'',
      ''    }'',
      ''    print_json(result)'',
      '''',
      ''func add_node(data):'',
      ''    # Implementation for adding a node'',
      ''    result = {'',
      ''        \"success\": true,'',
      ''        \"message\": \"Node added\"'',
      ''    }'',
      ''    print_json(result)'',
      '''',
      ''func print_error(message):'',
      ''    result = {'',
      ''        \"success\": false,'',
      ''        \"error\": message'',
      ''    }'',
      ''    print_json(result)'',
      '''',
      ''func print_json(data):'',
      ''    print(JSON.stringify(data))'']"

text \<open>The body of \<open>if (!gdScriptPath)\<close>: the variable is assigned before the write.\<close>

definition create_script :: "host \<Rightarrow> world \<Rightarrow> (js_error + string) \<times> world" where
  "create_script h w =
     (let p = path_join h (tmpdir h) ''godot_operations.gd'';
          w1 = w\<lparr>gdScriptPath := Some p\<rparr>
      in case writeFileSync h p gdScriptContent w1 of
           Inl error \<Rightarrow>
             (Inl (Error (''Failed to create GDScript operations file: '' @ error_text error)), w1)
         | Inr w2 \<Rightarrow> (Inr p, w2))"

definition initOperationsScript :: "host \<Rightarrow> world \<Rightarrow> (js_error + string) \<times> world" where
  "initOperationsScript h w =
     (case gdScriptPath w of
        None \<Rightarrow> create_script h w
      | Some p \<Rightarrow> if p = [] then create_script h w else (Inr p, w))"

text \<open>\<open>{ operation, projectPath, ...params }\<close>: a later property replaces an earlier one.\<close>

definition operationData :: "string \<Rightarrow> string \<Rightarrow> (string \<rightharpoonup> json) \<Rightarrow> (string \<rightharpoonup> json)" where
  "operationData operation projectPath params =
     [''operation'' \<mapsto> JStr operation, ''projectPath'' \<mapsto> JStr projectPath] ++ params"

definition tempJsonPath :: "host \<Rightarrow> world \<Rightarrow> string" where
  "tempJsonPath h w = path_join h (tmpdir h) (''godot_op_'' @ digits (clock w) @ ''.json'')"

text \<open>
  \<open>runGodotOperation\<close>. Nothing between the write of the request file and its removal
  is inside a \<open>try\<close>, so an error thrown by \<open>runGodotCommand\<close> leaves the function there.
\<close>

definition cleanup :: "host \<Rightarrow> string \<Rightarrow> world \<Rightarrow> world" where
  "cleanup h p w =
     (case unlinkSync h p w of
        Inr w' \<Rightarrow> w'
      | Inl e \<Rightarrow> console_error (''Failed to clean up temp file: '' @ error_text e) w)"

definition report_stderr :: "command_result \<Rightarrow> world \<Rightarrow> world" where
  "report_stderr r w =
     (if stderr r \<noteq> [] then console_error (''GDScript operation error: '' @ stderr r) w else w)"

definition write_request ::
  "host \<Rightarrow> string \<Rightarrow> string \<Rightarrow> (string \<rightharpoonup> json) \<Rightarrow> world \<Rightarrow> js_error + world" where
  "write_request h projectPath operation params w =
     writeFileSync h (tempJsonPath h w)
       (json_stringify h (operationData operation projectPath params)) w"

definition runGodotOperation ::
  "host \<Rightarrow> string \<Rightarrow> string \<Rightarrow> (string \<rightharpoonup> json) \<Rightarrow> world \<Rightarrow> (js_error + json) \<times> world" where
  "runGodotOperation h projectPath operation params w =
     (let found = findGodotPath h (files w)
      in if \<not> truthy found then (Inl (Error ''Godot executable not found''), w)
         else
           (case initOperationsScript h w of
              (Inl e, w1) \<Rightarrow> (Inl e, w1)
            | (Inr scriptPath, w1) \<Rightarrow>
                (let request = tempJsonPath h w1
                 in case write_request h projectPath operation params w1 of
                      Inl e \<Rightarrow> (Inl e, w1)
                    | Inr w2 \<Rightarrow>
                        (case runGodotCommand h (files w2) (or_empty found)
                                [''--script'', scriptPath, request] (Some projectPath) of
                           Inl e \<Rightarrow> (Inl e, w2)
                         | Inr r \<Rightarrow>
                             (parse_result h (stdout r),
                              report_stderr r (cleanup h request w2))))))"

section \<open>Session State (initGodot, runProject, stopProject, getDebugOutput)\<close>

definition initGodot :: "host \<Rightarrow> world \<Rightarrow> (js_error + string) \<times> world" where
  "initGodot h w =
     (if \<not> truthy (godotPath w) then
        (let found = findGodotPath h (files w);
             w1 = w\<lparr>godotPath := found\<rparr>
         in if \<not> truthy found then
              (Inl (Error ''Godot executable not found. Set GODOT_PATH environment variable to your Godot executable.''), w1)
            else (Inr (or_empty found), w1))
      else (Inr (or_empty (godotPath w)), w))"

text \<open>\<open>spawn\<close> returns the child process object at once; \<open>kill()\<close> marks the process.\<close>

definition spawn :: "string \<Rightarrow> string list \<Rightarrow> world \<Rightarrow> nat \<times> world" where
  "spawn exe args w =
     (length (procs w),
      w\<lparr>procs := procs w @ [\<lparr>program = exe, argv = args, killed = False, output_buf = []\<rparr>],
        events := events w @ [Spawned (length (procs w))]\<rparr>)"

definition kill :: "nat \<Rightarrow> world \<Rightarrow> world" where
  "kill pid w =
     (if pid < length (procs w)
      then w\<lparr>procs := (procs w)[pid := (procs w ! pid)\<lparr>killed := True\<rparr>],
             events := events w @ [Killed pid]\<rparr>
      else w)"

definition stopProject :: "world \<Rightarrow> string \<times> world" where
  "stopProject w =
     (case godotProcess w of
        None \<Rightarrow> (''No Godot project is currently running'', w)
      | Some pid \<Rightarrow> (''Stopped running Godot project'', (kill pid w)\<lparr>godotProcess := None\<rparr>))"

definition runProject :: "host \<Rightarrow> string \<Rightarrow> world \<Rightarrow> (js_error + string) \<times> world" where
  "runProject h projectPath w =
     (case initGodot h w of
        (Inl e, w1) \<Rightarrow> (Inl e, w1)
      | (Inr exe, w1) \<Rightarrow>
          if \<not> isGodotProject h (files w1) projectPath then
            (Inl (Error (''Invalid Godot project path: '' @ projectPath)), w1)
          else
            (let w2 = (if godotProcess w1 \<noteq> None then snd (stopProject w1) else w1);
                 (pid, w3) = spawn exe [''--path'', projectPath] w2
             in (Inr (''Running Godot project: '' @ projectPath), w3\<lparr>godotProcess := Some pid\<rparr>)))"

text \<open>
  The handlers registered on \<open>stdout\<close> and \<open>stderr\<close> of the spawned process: both append
  the chunk to the same variable \<open>output\<close>, local to the \<open>runProject\<close> call.
\<close>

datatype stream = Stdout | Stderr

definition on_data :: "stream \<Rightarrow> nat \<Rightarrow> string \<Rightarrow> world \<Rightarrow> world" where
  "on_data st pid chunk w =
     (if pid < length (procs w)
      then w\<lparr>procs := (procs w)[pid := (procs w ! pid)\<lparr>output_buf := output_buf (procs w ! pid) @ chunk\<rparr>]\<rparr>
      else w)"

definition getDebugOutput :: "world \<Rightarrow> string" where
  "getDebugOutput w =
     (case godotProcess w of
        None \<Rightarrow> ''No Godot project is currently running''
      | Some pid \<Rightarrow> ''Debug output would be shown here'')"












text \<open>The handles that are held: the processes started and not killed.\<close>

definition running :: "world \<Rightarrow> nat list" where
  "running w = filter (\<lambda>i. \<not> killed (procs w ! i)) [0..<length (procs w)]"


text \<open>The server as it starts: no file written, every module variable \<open>null\<close>.\<close>

definition boot :: "fs \<Rightarrow> nat \<Rightarrow> world" where
  "boot fls t =
     \<lparr>files = fls, written = [], console = [], clock = t, gdScriptPath = None,
      godotPath = None, godotProcess = None, procs = [], events = []\<rparr>"

section \<open>Hosts and inputs used in the examples\<close>

text \<open>
  A Linux host with Godot installed and one project; the engine prints its banner and
  one line of JSON. Its \<open>trim\<close> is given at the one text with white space that the
  examples trim.
\<close>

definition demo_files :: fs where
  "demo_files = [''/usr/bin/godot'' \<mapsto> ''ELF'', ''/game/project.godot'' \<mapsto> ''config_version=5'']"

definition demo_host :: host where
  "demo_host =
     \<lparr>platform = ''linux'', env_GODOT_PATH = None, tmpdir = ''/tmp'',
      path_join = (\<lambda>a b. a @ ''/'' @ b),
      trim = (\<lambda>t. if t = ''/opt/godot/bin/godot\<newline>'' then ''/opt/godot/bin/godot'' else t),
      exec = (\<lambda>cmd cwd fls. Resolved ''Godot Engine v4.2\<newline>{\"success\":true}\<newline>'' []),
      json_parse = (\<lambda>t. if t = ''{\"success\":true}''
                         then Some (JObj [(''success'', JBool True)]) else None),
      json_stringify = (\<lambda>m. ''{}''),
      locked = (\<lambda>p. False)\<rparr>"

text \<open>The same host with an engine that prints nothing and exits with code 1.\<close>

definition silent_host :: host where
  "silent_host = demo_host\<lparr>exec := (\<lambda>cmd cwd fls. Rejected (ExitError 1) (Some []) (Some []))\<rparr>"

text \<open>
  A host of another platform, with the override set to a path that does not exist and
  no \<open>godot\<close> on the search path.
\<close>

definition bare_host :: host where
  "bare_host =
     demo_host\<lparr>platform := ''freebsd'', env_GODOT_PATH := Some ''/opt/godot'',
               exec := (\<lambda>cmd cwd fls. Rejected (ExitError 1) (Some []) (Some []))\<rparr>"

text \<open>
  A host of that platform on which \<open>which godot\<close> prints a path and a line feed, and
  the filesystem that has that path; a filesystem with the second Linux location only;
  a host on which no file can be written.
\<close>

definition which_host :: host where
  "which_host =
     bare_host\<lparr>exec := (\<lambda>cmd cwd fls.
        if cmd = ''which godot'' then Resolved ''/opt/godot/bin/godot\<newline>'' []
        else Rejected (ExitError 1) (Some []) (Some []))\<rparr>"

definition which_files :: fs where
  "which_files = [''/opt/godot/bin/godot'' \<mapsto> ''ELF'']"

definition local_files :: fs where
  "local_files = [''/usr/local/bin/godot'' \<mapsto> ''ELF'']"

definition locked_host :: host where
  "locked_host = demo_host\<lparr>locked := (\<lambda>p. True)\<rparr>"

text \<open>
  A reading of a command line as words, for the examples: blanks separate words and
  double quotes group (quoting alone of what a shell does).
\<close>

fun sh_words :: "bool \<Rightarrow> string \<Rightarrow> string \<Rightarrow> string list" where
  "sh_words quoted cur [] = (if cur = [] then [] else [cur])"
| "sh_words quoted cur (c # cs) =
     (if c = CHR 0x22 then sh_words (\<not> quoted) cur cs
      else if c = CHR '' '' \<and> \<not> quoted then
        (if cur = [] then sh_words quoted [] cs else cur # sh_words quoted [] cs)
      else sh_words quoted (cur @ [c]) cs)"

section \<open>The regular expression matches the greedy span\<close>

lemma match_rest_None: "match_rest cs = None \<longleftrightarrow> CHR ''}'' \<notin> set cs"
  by (induction cs) (auto split: option.splits)

lemma match_rest_Some:
  "CHR ''}'' \<in> set cs \<Longrightarrow>
   match_rest cs = Some (rev (dropWhile (\<lambda>c. c \<noteq> CHR ''}'') (rev cs)))"
proof (induction cs)
  case Nil
  then show ?case by simp
next
  case (Cons c cs)
  show ?case
  proof (cases "CHR ''}'' \<in> set cs")
    case True
    then have "dropWhile (\<lambda>c. c \<noteq> CHR ''}'') (rev cs @ [c])
               = dropWhile (\<lambda>c. c \<noteq> CHR ''}'') (rev cs) @ [c]"
      by (intro dropWhile_append1[of "CHR ''}''"]) auto
    with True Cons.IH show ?thesis by simp
  next
    case False
    with Cons.prems have c: "c = CHR ''}''" by simp
    from False have "match_rest cs = None" by (simp add: match_rest_None)
    moreover from False have "dropWhile (\<lambda>c. c \<noteq> CHR ''}'') (rev cs @ [c])
                              = dropWhile (\<lambda>c. c \<noteq> CHR ''}'') [c]"
      by (intro dropWhile_append2) auto
    ultimately show ?thesis using c by simp
  qed
qed

lemma regex_match_no_close: "CHR ''}'' \<notin> set s \<Longrightarrow> regex_match s = None"
proof (induction s)
  case Nil
  then show ?case by simp
next
  case (Cons c cs)
  then have "match_rest cs = None" by (simp add: match_rest_None)
  with Cons show ?case by simp
qed

lemma rev_dropWhile_rev:
  "rev (dropWhile P (rev cs)) = take (length cs - length (takeWhile P (rev cs))) cs"
proof -
  have "rev (dropWhile P (rev cs)) = rev (drop (length (takeWhile P (rev cs))) (rev cs))"
    by (simp add: dropWhile_eq_drop)
  also have "\<dots> = take (length cs - length (takeWhile P (rev cs))) cs"
    by (simp add: rev_drop)
  finally show ?thesis .
qed

lemma takeWhile_shorter: "x \<in> set xs \<Longrightarrow> \<not> P x \<Longrightarrow> length (takeWhile P xs) < length xs"
  by (induction xs) auto

lemma takeWhile_absent:
  "x \<notin> set xs \<Longrightarrow> takeWhile (\<lambda>c. c \<noteq> x) (xs @ ys) = xs @ takeWhile (\<lambda>c. c \<noteq> x) ys"
  by (induction xs) auto

lemma regex_match_split:
  "CHR ''{'' \<notin> set pre \<Longrightarrow>
   regex_match (pre @ CHR ''{'' # cs) =
     (if CHR ''}'' \<in> set cs
      then Some (CHR ''{'' # rev (dropWhile (\<lambda>c. c \<noteq> CHR ''}'') (rev cs)))
      else None)"
proof (induction pre)
  case Nil
  show ?case
  proof (cases "CHR ''}'' \<in> set cs")
    case True
    then show ?thesis by (simp add: match_rest_Some)
  next
    case False
    then have "match_rest cs = None" "regex_match cs = None"
      by (simp_all add: match_rest_None regex_match_no_close)
    with False show ?thesis by simp
  qed
next
  case (Cons p pre)
  then have "p \<noteq> CHR ''{''" by auto
  with Cons show ?case by simp
qed

lemma regex_match_no_open: "CHR ''{'' \<notin> set s \<Longrightarrow> regex_match s = None"
  by (induction s) auto

lemma greedy_span_no_open: "CHR ''{'' \<notin> set s \<Longrightarrow> greedy_span s = None"
  by (simp add: greedy_span_def first_open_def)

lemma greedy_span_split:
  assumes "CHR ''{'' \<notin> set pre"
  shows "greedy_span (pre @ CHR ''{'' # cs) =
     (if CHR ''}'' \<in> set cs
      then Some (CHR ''{'' # rev (dropWhile (\<lambda>c. c \<noteq> CHR ''}'') (rev cs)))
      else None)"
proof -
  let ?s = "pre @ CHR ''{'' # cs"
  let ?P = "\<lambda>c. c \<noteq> CHR ''}''"
  from assms have tw: "takeWhile (\<lambda>c. c \<noteq> CHR ''{'') ?s = pre"
    by (induction pre) auto
  have fo: "first_open ?s = Some (length pre)"
    unfolding first_open_def using tw by simp
  show ?thesis
  proof (cases "CHR ''}'' \<in> set cs")
    case True
    let ?n = "length (takeWhile ?P (rev cs))"
    from True have tk: "takeWhile ?P (rev ?s) = takeWhile ?P (rev cs)"
      by (simp add: takeWhile_append1)
    have "?n < length cs"
      using True takeWhile_shorter[of "CHR ''}''" "rev cs" ?P] by simp
    then have lc: "last_close ?s = Some (length pre + (length cs - ?n))"
      unfolding last_close_def using True tk by simp
    have "take (length pre + (length cs - ?n) + 1 - length pre) (drop (length pre) ?s)
          = CHR ''{'' # take (length cs - ?n) cs"
      using \<open>?n < length cs\<close> by (simp add: Suc_diff_le)
    with fo lc \<open>?n < length cs\<close> True show ?thesis
      by (simp add: greedy_span_def rev_dropWhile_rev)
  next
    case False
    show ?thesis
    proof (cases "CHR ''}'' \<in> set pre")
      case True
      from False have tk: "takeWhile ?P (rev ?s) = rev cs @ CHR ''{'' # takeWhile ?P (rev pre)"
        using takeWhile_absent[of "CHR ''}''" "rev cs" "CHR ''{'' # rev pre"] by simp
      then have "last_close ?s = Some (length pre - 1 - length (takeWhile ?P (rev pre)))"
        unfolding last_close_def using True by simp
      with fo False show ?thesis by (simp add: greedy_span_def)
    next
      case nopre: False
      with False have "last_close ?s = None" by (simp add: last_close_def)
      with fo False show ?thesis by (simp add: greedy_span_def)
    qed
  qed
qed

lemma regex_match_greedy: "regex_match s = greedy_span s"
proof (cases "CHR ''{'' \<in> set s")
  case True
  then obtain pre cs where "s = pre @ CHR ''{'' # cs" "CHR ''{'' \<notin> set pre"
    by (meson split_list_first)
  then show ?thesis
    using regex_match_split[of pre cs] greedy_span_split[of pre cs] by simp
next
  case False
  then show ?thesis by (simp add: regex_match_no_open greedy_span_no_open)
qed


section \<open>Result Extractor\<close>

lemma parse_result_span:
  "parse_result h out =
     (case greedy_span out of
        None \<Rightarrow> Inl (Error (''Failed to parse GDScript operation result: '' @ out))
      | Some span \<Rightarrow>
          (case json_parse h span of
             Some v \<Rightarrow> Inr v
           | None \<Rightarrow> Inl (Error (''Failed to parse GDScript operation result: '' @ out))))"
  by (simp add: parse_result_def try_parse_def regex_match_greedy split: option.splits)

text \<open>
  C6. For every text the match of the regular expression is the span from the first
  opening brace through the last closing brace of the text, no brace counting is done
  (the span of \<open>{} {}\<close> is the whole of it), and the result is the parse of that one
  span: one value at most.
\<close>

theorem extractor_greedy_span:
  "regex_match out = greedy_span out \<and>
   regex_match ''log {} {} end'' = Some ''{} {}'' \<and>
   parse_result h out =
     (case greedy_span out of
        None \<Rightarrow> Inl (Error (''Failed to parse GDScript operation result: '' @ out))
      | Some span \<Rightarrow>
          (case json_parse h span of
             Some v \<Rightarrow> Inr v
           | None \<Rightarrow> Inl (Error (''Failed to parse GDScript operation result: '' @ out))))"
proof -
  have "regex_match ''log {} {} end'' = Some ''{} {}''" by simp
  then show ?thesis
    using regex_match_greedy[of out] parse_result_span[of h out] by simp
qed

text \<open>
  C2. On \<open>no json here\<close> the "No JSON found" error is thrown inside the \<open>try\<close> block
  and replaced by its \<open>catch\<close>: the caller receives the same "Failed to parse" error
  that a span which is not JSON produces.
\<close>

theorem no_json_not_distinct:
  "try_parse h ''no json here'' = Inl (Error ''No JSON found in output: no json here'') \<and>
   parse_result h ''no json here''
     = Inl (Error ''Failed to parse GDScript operation result: no json here'') \<and>
   parse_result (h\<lparr>json_parse := (\<lambda>t. None)\<rparr>) ''{oops}''
     = Inl (Error ''Failed to parse GDScript operation result: {oops}'')"
  by (simp add: parse_result_def try_parse_def)

section \<open>Process Runner\<close>

lemma array_join_append:
  "xs \<noteq> [] \<Longrightarrow> ys \<noteq> [] \<Longrightarrow>
   array_join sep (xs @ ys) = array_join sep xs @ sep @ array_join sep ys"
proof (induction sep xs rule: array_join.induct)
  case (1 sep)
  then show ?case by simp
next
  case (2 sep x)
  then show ?case by (cases ys) simp_all
next
  case (3 sep x y ys')
  then show ?case by simp
qed

lemma array_join_space_split:
  "array_join '' '' (xs @ [a @ '' '' @ b] @ ys) = array_join '' '' (xs @ [a, b] @ ys)"
proof -
  have one: "array_join '' '' ([a @ '' '' @ b] @ ys) = array_join '' '' ([a, b] @ ys)"
    by (cases ys) simp_all
  show ?thesis
  proof (cases "xs = []")
    case True
    with one show ?thesis by simp
  next
    case False
    then show ?thesis
      using array_join_append[of xs "[a @ '' '' @ b] @ ys" "'' ''"]
            array_join_append[of xs "[a, b] @ ys" "'' ''"] one
      by simp
  qed
qed

text \<open>
  C1 (amended). \<open>run\<close> raises exactly when \<open>exec\<close> rejects with nothing captured on
  stdout and nothing on stderr, and then it raises the error of \<open>exec\<close>; this is so for
  a child that could not be spawned and for a child that exits with a non-zero code in
  silence. A child that exits with a non-zero code having printed anything gives a
  normal result carrying the captured stdout and stderr, and so does exit code 0.
\<close>

theorem run_raises_iff_nothing_captured:
  "(runGodotCommand h fls exe args cwd = Inl e \<longleftrightarrow>
      (\<exists>out err. exec h (command_line exe args) cwd fls = Rejected e out err
                 \<and> \<not> truthy out \<and> \<not> truthy err)) \<and>
   (exec h (command_line exe args) cwd fls = Rejected (ExitError n) out err
      \<longrightarrow> truthy out \<or> truthy err
      \<longrightarrow> runGodotCommand h fls exe args cwd
            = Inr \<lparr>stdout = or_empty out, stderr = or_empty err\<rparr>) \<and>
   (exec h (command_line exe args) cwd fls = Resolved o1 o2
      \<longrightarrow> runGodotCommand h fls exe args cwd = Inr \<lparr>stdout = o1, stderr = o2\<rparr>)"
  by (auto simp: runGodotCommand_def split: exec_outcome.splits)

theorem run_raises_iff_nothing_captured_witness:
  "runGodotCommand
     (demo_host\<lparr>exec := (\<lambda>cmd cwd fls. Rejected (ExitError 3) (Some ''partial'') None)\<rparr>)
     demo_files ''/usr/bin/godot'' [''--version''] None
   = Inr \<lparr>stdout = ''partial'', stderr = []\<rparr>"
  using run_raises_iff_nothing_captured
          [of "demo_host\<lparr>exec := (\<lambda>cmd cwd fls. Rejected (ExitError 3) (Some ''partial'') None)\<rparr>"
              demo_files "''/usr/bin/godot''" "[''--version'']" None _ 3 "Some ''partial''" None]
  by (simp add: truthy_def or_empty_def)

text \<open>
  C1 as stated fails: the child of \<open>silent_host\<close> runs and exits with code 1
  having printed nothing, and \<open>run\<close> raises.
\<close>

theorem run_silent_exit_counterexample:
  "runGodotCommand silent_host demo_files ''/usr/bin/godot'' [''--version''] None
   = Inl (ExitError 1)"
  by (simp add: runGodotCommand_def silent_host_def truthy_def)

text \<open>
  C10. The command given to the shell is the executable in double quotes, a blank, and
  the arguments joined by single blanks, with no quoting of an argument. An argument
  \<open>a b\<close> gives the same command, and so the same run, as the two arguments \<open>a\<close> and
  \<open>b\<close>: whatever reads the command back as the two words cannot read it back as the
  one argument that was passed.
\<close>

theorem args_not_quoted:
  "command_line exe args = [CHR 0x22] @ exe @ [CHR 0x22] @ '' '' @ array_join '' '' args \<and>
   runGodotCommand h fls exe args cwd
     = (case exec h (command_line exe args) cwd fls of
          Resolved out err \<Rightarrow> Inr \<lparr>stdout = out, stderr = err\<rparr>
        | Rejected error out err \<Rightarrow>
            if truthy out \<or> truthy err
            then Inr \<lparr>stdout = or_empty out, stderr = or_empty err\<rparr> else Inl error) \<and>
   command_line exe (xs @ [a @ '' '' @ b] @ ys) = command_line exe (xs @ [a, b] @ ys) \<and>
   runGodotCommand h fls exe (xs @ [a @ '' '' @ b] @ ys) cwd
     = runGodotCommand h fls exe (xs @ [a, b] @ ys) cwd \<and>
   (\<forall>sh. sh (command_line exe (xs @ [a, b] @ ys)) = exe # xs @ [a, b] @ ys
         \<longrightarrow> sh (command_line exe (xs @ [a @ '' '' @ b] @ ys)) \<noteq> exe # xs @ [a @ '' '' @ b] @ ys)"
proof -
  have cl: "command_line exe (xs @ [a @ '' '' @ b] @ ys) = command_line exe (xs @ [a, b] @ ys)"
    unfolding command_line_def using array_join_space_split[of xs a b ys] by simp
  have ne: "xs @ [a @ '' '' @ b] @ ys \<noteq> xs @ [a, b] @ ys"
  proof
    assume "xs @ [a @ '' '' @ b] @ ys = xs @ [a, b] @ ys"
    then have "a @ '' '' @ b = a" by simp
    then show False by simp
  qed
  have run: "runGodotCommand h fls exe (xs @ [a @ '' '' @ b] @ ys) cwd
             = runGodotCommand h fls exe (xs @ [a, b] @ ys) cwd"
    unfolding runGodotCommand_def cl ..
  have "command_line exe args = [CHR 0x22] @ exe @ [CHR 0x22] @ '' '' @ array_join '' '' args"
    by (simp add: command_line_def)
  moreover have "\<forall>sh. sh (command_line exe (xs @ [a, b] @ ys)) = exe # xs @ [a, b] @ ys
         \<longrightarrow> sh (command_line exe (xs @ [a @ '' '' @ b] @ ys)) \<noteq> exe # xs @ [a @ '' '' @ b] @ ys"
    using cl ne by auto
  ultimately show ?thesis
    using cl run by (simp add: runGodotCommand_def)
qed

theorem args_not_quoted_witness:
  "sh_words False [] (command_line ''/usr/bin/godot'' [''--path'', ''/my'', ''game''])
     = [''/usr/bin/godot'', ''--path'', ''/my'', ''game''] \<and>
   sh_words False [] (command_line ''/usr/bin/godot'' [''--path'', ''/my game''])
     \<noteq> [''/usr/bin/godot'', ''--path'', ''/my game'']"
proof -
  have w: "sh_words False [] (command_line ''/usr/bin/godot'' ([''--path''] @ [''/my'', ''game''] @ []))
           = ''/usr/bin/godot'' # [''--path''] @ [''/my'', ''game''] @ []"
    by (simp add: command_line_def)
  from args_not_quoted[of "''/usr/bin/godot''" _ _ _ _ "[''--path'']" "''/my''" "''game''" "[]"] w
  have "sh_words False [] (command_line ''/usr/bin/godot'' ([''--path''] @ [''/my'' @ '' '' @ ''game''] @ []))
        \<noteq> ''/usr/bin/godot'' # [''--path''] @ [''/my'' @ '' '' @ ''game''] @ []"
    by blast
  with w show ?thesis by simp
qed

section \<open>Executable Locator\<close>

lemma first_existing_Some:
  "first_existing fls ps = Some q \<Longrightarrow> existsSync fls q \<and> q \<in> set ps"
  by (induction ps) (auto split: if_splits)

lemma first_existing_None:
  "first_existing fls ps = None \<longleftrightarrow> (\<forall>q\<in>set ps. \<not> existsSync fls q)"
  by (induction ps) auto

lemma first_existing_first:
  "(\<forall>x\<in>set pre. \<not> existsSync fls x) \<Longrightarrow> existsSync fls q \<Longrightarrow>
   first_existing fls (pre @ q # post) = Some q"
  by (induction pre) auto

lemma which_godot_Some:
  "which_godot h fls = Some q \<Longrightarrow> existsSync fls q \<and> platform h \<noteq> ''win32''"
  by (auto simp: which_godot_def Let_def split: if_splits exec_outcome.splits)

lemma env_override_Some: "env_override h fls = Some q \<Longrightarrow> existsSync fls q"
  by (auto simp: env_override_def split: option.splits if_splits)

lemma findGodotPath_Some: "findGodotPath h fls = Some q \<Longrightarrow> existsSync fls q"
  by (auto simp: findGodotPath_def split: option.splits
           dest: env_override_Some first_existing_Some which_godot_Some)

lemma potentialPaths_table:
  "potentialPaths h =
     (if platform h = ''darwin'' then
        [''/Applications/Godot.app/Contents/MacOS/Godot'',
         ''/Applications/Godot_4.app/Contents/MacOS/Godot'',
         ''/Applications/Godot_4.2.app/Contents/MacOS/Godot'']
      else if platform h = ''linux'' then [''/usr/bin/godot'', ''/usr/local/bin/godot'']
      else if platform h = ''win32'' then
        [''C:'' @ bs @ ''Program Files'' @ bs @ ''Godot'' @ bs @ ''Godot.exe'',
         ''C:'' @ bs @ ''Program Files (x86)'' @ bs @ ''Godot'' @ bs @ ''Godot.exe'']
      else [])"
  by (simp add: potentialPaths_def GODOT_PATHS_def)

text \<open>
  C8. With the override set to a path that does not exist, on every platform, the
  locator ignores it and answers as it does with no override. The list it then walks is
  the one of the platform (empty for a platform without one), and the first path of the
  list that exists is returned. When no path of the list exists and the platform is not
  Windows, the text \<open>which godot\<close> prints, trimmed, is returned if it is not empty and
  exists. In every other case (Windows, \<open>which\<close> failing, printing nothing, or printing a
  path that does not exist) the answer is \<open>null\<close>, a value and not an error. Every path
  returned exists.
\<close>

theorem locator_falls_through:
  assumes "env_GODOT_PATH h = Some p" and "\<not> existsSync fls p"
  shows "findGodotPath h fls = findGodotPath (h\<lparr>env_GODOT_PATH := None\<rparr>) fls \<and>
         potentialPaths h =
           (if platform h = ''darwin'' then
              [''/Applications/Godot.app/Contents/MacOS/Godot'',
               ''/Applications/Godot_4.app/Contents/MacOS/Godot'',
               ''/Applications/Godot_4.2.app/Contents/MacOS/Godot'']
            else if platform h = ''linux'' then [''/usr/bin/godot'', ''/usr/local/bin/godot'']
            else if platform h = ''win32'' then
              [''C:'' @ bs @ ''Program Files'' @ bs @ ''Godot'' @ bs @ ''Godot.exe'',
               ''C:'' @ bs @ ''Program Files (x86)'' @ bs @ ''Godot'' @ bs @ ''Godot.exe'']
            else []) \<and>
         (\<forall>pre q post. potentialPaths h = pre @ q # post
              \<and> (\<forall>x\<in>set pre. \<not> existsSync fls x) \<and> existsSync fls q
            \<longrightarrow> findGodotPath h fls = Some q) \<and>
         (\<forall>out err. (\<forall>x\<in>set (potentialPaths h). \<not> existsSync fls x)
              \<and> platform h \<noteq> ''win32''
              \<and> exec h ''which godot'' None fls = Resolved out err
              \<and> trim h out \<noteq> [] \<and> existsSync fls (trim h out)
            \<longrightarrow> findGodotPath h fls = Some (trim h out)) \<and>
         ((\<forall>x\<in>set (potentialPaths h). \<not> existsSync fls x)
              \<and> (platform h = ''win32''
                   \<or> (\<exists>e out err. exec h ''which godot'' None fls = Rejected e out err)
                   \<or> (\<exists>out err. exec h ''which godot'' None fls = Resolved out err
                         \<and> (trim h out = [] \<or> \<not> existsSync fls (trim h out))))
            \<longrightarrow> findGodotPath h fls = None) \<and>
         (\<forall>q. findGodotPath h fls = Some q \<longrightarrow> existsSync fls q \<and> q \<noteq> p)"
proof -
  from assms have ov: "env_override h fls = None"
    by (simp add: env_override_def)
  have ov': "env_override (h\<lparr>env_GODOT_PATH := None\<rparr>) fls = None"
    by (simp add: env_override_def)
  have same: "which_godot (h\<lparr>env_GODOT_PATH := None\<rparr>) fls = which_godot h fls"
             "potentialPaths (h\<lparr>env_GODOT_PATH := None\<rparr>) = potentialPaths h"
    by (simp_all add: which_godot_def potentialPaths_def split: exec_outcome.splits)
  have fall: "findGodotPath h fls =
           (case first_existing fls (potentialPaths h) of
              Some q \<Rightarrow> Some q
            | None \<Rightarrow> which_godot h fls)"
    using ov by (simp add: findGodotPath_def)
  have a: "findGodotPath h fls = findGodotPath (h\<lparr>env_GODOT_PATH := None\<rparr>) fls"
    using ov ov' same by (simp add: findGodotPath_def split: option.splits)
  have b: "\<forall>pre q post. potentialPaths h = pre @ q # post
              \<and> (\<forall>x\<in>set pre. \<not> existsSync fls x) \<and> existsSync fls q
            \<longrightarrow> findGodotPath h fls = Some q"
    using fall by (auto simp: first_existing_first)
  have none: "(\<forall>x\<in>set (potentialPaths h). \<not> existsSync fls x)
              \<Longrightarrow> findGodotPath h fls = which_godot h fls"
    using fall first_existing_None[of fls "potentialPaths h"] by simp
  have c: "\<forall>out err. (\<forall>x\<in>set (potentialPaths h). \<not> existsSync fls x)
              \<and> platform h \<noteq> ''win32''
              \<and> exec h ''which godot'' None fls = Resolved out err
              \<and> trim h out \<noteq> [] \<and> existsSync fls (trim h out)
            \<longrightarrow> findGodotPath h fls = Some (trim h out)"
    using none by (auto simp: which_godot_def Let_def)
  have d: "(\<forall>x\<in>set (potentialPaths h). \<not> existsSync fls x)
              \<and> (platform h = ''win32''
                   \<or> (\<exists>e out err. exec h ''which godot'' None fls = Rejected e out err)
                   \<or> (\<exists>out err. exec h ''which godot'' None fls = Resolved out err
                         \<and> (trim h out = [] \<or> \<not> existsSync fls (trim h out))))
            \<longrightarrow> findGodotPath h fls = None"
    using none by (auto simp: which_godot_def Let_def)
  have e: "\<forall>q. findGodotPath h fls = Some q \<longrightarrow> existsSync fls q \<and> q \<noteq> p"
    using findGodotPath_Some[of h fls] assms(2) by auto
  from a potentialPaths_table[of h] b c d e show ?thesis by blast
qed

theorem locator_falls_through_witness:
  "env_GODOT_PATH bare_host = Some ''/opt/godot'' \<and> \<not> existsSync demo_files ''/opt/godot'' \<and>
   findGodotPath bare_host demo_files = None \<and>
   findGodotPath (bare_host\<lparr>platform := ''linux''\<rparr>) local_files = Some ''/usr/local/bin/godot'' \<and>
   findGodotPath which_host which_files = Some ''/opt/godot/bin/godot''"
proof -
  let ?linux = "bare_host\<lparr>platform := ''linux''\<rparr>"
  have e: "env_GODOT_PATH bare_host = Some ''/opt/godot''"
          "env_GODOT_PATH ?linux = Some ''/opt/godot''"
          "env_GODOT_PATH which_host = Some ''/opt/godot''"
    by (simp_all add: which_host_def bare_host_def demo_host_def)
  have n: "\<not> existsSync demo_files ''/opt/godot''"
          "\<not> existsSync local_files ''/opt/godot''"
          "\<not> existsSync which_files ''/opt/godot''"
    by (simp_all add: existsSync_def demo_files_def local_files_def which_files_def)
  have p: "potentialPaths bare_host = []" "potentialPaths which_host = []"
          "potentialPaths ?linux = [''/usr/bin/godot''] @ ''/usr/local/bin/godot'' # []"
    by (simp_all add: potentialPaths_table which_host_def bare_host_def demo_host_def)
  have x: "exec bare_host ''which godot'' None demo_files = Rejected (ExitError 1) (Some []) (Some [])"
    by (simp add: bare_host_def demo_host_def)
  note none = locator_falls_through[OF e(1) n(1), THEN conjunct2, THEN conjunct2,
                 THEN conjunct2, THEN conjunct2, THEN conjunct1]
  have r1: "findGodotPath bare_host demo_files = None"
    using none p(1) x by simp
  have l: "(\<forall>x\<in>set [''/usr/bin/godot'']. \<not> existsSync local_files x)"
          "existsSync local_files ''/usr/local/bin/godot''"
    by (simp_all add: existsSync_def local_files_def)
  note listed = locator_falls_through[OF e(2) n(2), THEN conjunct2, THEN conjunct2,
                   THEN conjunct1]
  have r2: "findGodotPath ?linux local_files = Some ''/usr/local/bin/godot''"
    using listed p(3) l by blast
  have wh: "platform which_host \<noteq> ''win32''"
           "exec which_host ''which godot'' None which_files = Resolved ''/opt/godot/bin/godot\<newline>'' []"
           "trim which_host ''/opt/godot/bin/godot\<newline>'' = ''/opt/godot/bin/godot''"
           "existsSync which_files ''/opt/godot/bin/godot''"
    by (simp_all add: which_host_def bare_host_def demo_host_def existsSync_def which_files_def)
  note looked_up = locator_falls_through[OF e(3) n(3), THEN conjunct2, THEN conjunct2,
                      THEN conjunct2, THEN conjunct1]
  have "findGodotPath which_host which_files = Some (trim which_host ''/opt/godot/bin/godot\<newline>'')"
    using looked_up p(2) wh by simp
  with wh(3) have r3: "findGodotPath which_host which_files = Some ''/opt/godot/bin/godot''"
    by simp
  from e(1) n(1) r1 r2 r3 show ?thesis by simp
qed

section \<open>Operation Script Bridge\<close>

text \<open>
  C7. The request spreads \<open>params\<close> after the two fixed fields: an entry of \<open>params\<close>
  named \<open>operation\<close> or \<open>projectPath\<close> is the one the request holds, the fixed field is
  held only when \<open>params\<close> has no such entry, and the file written is the serialization of
  that request.
\<close>

theorem params_override_fixed_fields:
  "(params ''operation'' = Some v \<longrightarrow>
      operationData operation projectPath params ''operation'' = Some v) \<and>
   (params ''projectPath'' = Some v \<longrightarrow>
      operationData operation projectPath params ''projectPath'' = Some v) \<and>
   (params ''operation'' = None \<longrightarrow>
      operationData operation projectPath params ''operation'' = Some (JStr operation)) \<and>
   (params ''projectPath'' = None \<longrightarrow>
      operationData operation projectPath params ''projectPath'' = Some (JStr projectPath)) \<and>
   (write_request h projectPath operation params w = Inr w2 \<longrightarrow>
      files w2 (tempJsonPath h w)
        = Some (json_stringify h (operationData operation projectPath params)))"
  by (auto simp: operationData_def map_add_def write_request_def writeFileSync_def
           split: if_splits)

theorem params_override_fixed_fields_witness:
  "operationData ''create_scene'' ''/game'' [''operation'' \<mapsto> JStr ''add_node''] ''operation''
     = Some (JStr ''add_node'') \<and>
   operationData ''create_scene'' ''/game'' [''operation'' \<mapsto> JStr ''add_node''] ''projectPath''
     = Some (JStr ''/game'')"
  using params_override_fixed_fields
          [of "[''operation'' \<mapsto> JStr ''add_node'']" "JStr ''add_node''" "''create_scene''" "''/game''"]
  by simp

lemma initOperationsScript_reuse:
  "gdScriptPath w = Some P \<Longrightarrow> P \<noteq> [] \<Longrightarrow> initOperationsScript h w = (Inr P, w)"
  by (simp add: initOperationsScript_def)

lemma initOperationsScript_first:
  "gdScriptPath w = None \<Longrightarrow> P = path_join h (tmpdir h) ''godot_operations.gd'' \<Longrightarrow>
   \<not> locked h P \<Longrightarrow>
   initOperationsScript h w =
     (Inr P, w\<lparr>files := (files w)(P \<mapsto> gdScriptContent), written := written w @ [P],
               gdScriptPath := Some P\<rparr>)"
  by (simp add: initOperationsScript_def create_script_def writeFileSync_def Let_def)

lemma runGodotOperation_keeps_script:
  assumes "gdScriptPath w = Some P" and "P \<noteq> []"
  shows "gdScriptPath (snd (runGodotOperation h projectPath operation params w)) = Some P \<and>
         filter (\<lambda>p. p \<noteq> tempJsonPath h w)
           (written (snd (runGodotOperation h projectPath operation params w)))
         = filter (\<lambda>p. p \<noteq> tempJsonPath h w) (written w)"
proof -
  have i: "initOperationsScript h w = (Inr P, w)"
    using assms by (rule initOperationsScript_reuse)
  show ?thesis
    by (auto simp: runGodotOperation_def i Let_def write_request_def writeFileSync_def assms
          cleanup_def unlinkSync_def report_stderr_def console_error_def
          split: sum.splits if_splits)
qed

lemma initOperationsScript_refused:
  "gdScriptPath w = None \<Longrightarrow> P = path_join h (tmpdir h) ''godot_operations.gd'' \<Longrightarrow>
   locked h P \<Longrightarrow>
   initOperationsScript h w =
     (Inl (Error (''Failed to create GDScript operations file: '' @ error_text (SystemError ''EACCES''))),
      w\<lparr>gdScriptPath := Some P\<rparr>)"
  by (simp add: initOperationsScript_def create_script_def writeFileSync_def Let_def)

text \<open>
  C9 (amended). The first call writes the script, once, to \<open>path.join(os.tmpdir(),
  'godot_operations.gd')\<close> and returns that path if the filesystem accepts the write; if
  it does not, the call raises and no file is written. After a first call that wrote
  the script, the second call in a row, and a call in any state in which the path is
  remembered, returns the same path and leaves the whole state as it is: the files,
  their content and the list of writes. An operation run in such a state keeps the path
  remembered and writes no file but its own request.
\<close>

theorem bridge_script_idempotent:
  assumes "P = path_join h (tmpdir h) ''godot_operations.gd''" and "P \<noteq> []"
      and "gdScriptPath w = None"
  shows "(\<not> locked h P \<longrightarrow>
            initOperationsScript h w =
              (Inr P, w\<lparr>files := (files w)(P \<mapsto> gdScriptContent), written := written w @ [P],
                        gdScriptPath := Some P\<rparr>) \<and>
            initOperationsScript h (snd (initOperationsScript h w))
              = (Inr P, snd (initOperationsScript h w))) \<and>
         (locked h P \<longrightarrow>
            fst (initOperationsScript h w)
              = Inl (Error (''Failed to create GDScript operations file: ''
                            @ error_text (SystemError ''EACCES''))) \<and>
            files (snd (initOperationsScript h w)) = files w \<and>
            written (snd (initOperationsScript h w)) = written w) \<and>
         (\<forall>w'. gdScriptPath w' = Some P \<longrightarrow> initOperationsScript h w' = (Inr P, w')) \<and>
         (\<forall>w' projectPath operation params. gdScriptPath w' = Some P \<longrightarrow>
            gdScriptPath (snd (runGodotOperation h projectPath operation params w')) = Some P \<and>
            filter (\<lambda>p. p \<noteq> tempJsonPath h w')
              (written (snd (runGodotOperation h projectPath operation params w')))
            = filter (\<lambda>p. p \<noteq> tempJsonPath h w') (written w'))"
proof -
  have later: "\<forall>w'. gdScriptPath w' = Some P \<longrightarrow> initOperationsScript h w' = (Inr P, w')"
    using assms(2) by (simp add: initOperationsScript_reuse)
  have ok: "\<not> locked h P \<longrightarrow>
            initOperationsScript h w =
              (Inr P, w\<lparr>files := (files w)(P \<mapsto> gdScriptContent), written := written w @ [P],
                        gdScriptPath := Some P\<rparr>) \<and>
            initOperationsScript h (snd (initOperationsScript h w))
              = (Inr P, snd (initOperationsScript h w))"
  proof
    assume free: "\<not> locked h P"
    have first: "initOperationsScript h w =
           (Inr P, w\<lparr>files := (files w)(P \<mapsto> gdScriptContent), written := written w @ [P],
                     gdScriptPath := Some P\<rparr>)"
      using assms free by (simp add: initOperationsScript_first)
    then have "gdScriptPath (snd (initOperationsScript h w)) = Some P"
      by simp
    with later have "initOperationsScript h (snd (initOperationsScript h w))
           = (Inr P, snd (initOperationsScript h w))"
      by blast
    with first show "initOperationsScript h w =
              (Inr P, w\<lparr>files := (files w)(P \<mapsto> gdScriptContent), written := written w @ [P],
                        gdScriptPath := Some P\<rparr>) \<and>
            initOperationsScript h (snd (initOperationsScript h w))
              = (Inr P, snd (initOperationsScript h w))"
      by blast
  qed
  have refused: "locked h P \<longrightarrow>
            fst (initOperationsScript h w)
              = Inl (Error (''Failed to create GDScript operations file: ''
                            @ error_text (SystemError ''EACCES''))) \<and>
            files (snd (initOperationsScript h w)) = files w \<and>
            written (snd (initOperationsScript h w)) = written w"
    using assms(1,3) by (simp add: initOperationsScript_refused)
  have ops: "\<forall>w' projectPath operation params. gdScriptPath w' = Some P \<longrightarrow>
            gdScriptPath (snd (runGodotOperation h projectPath operation params w')) = Some P \<and>
            filter (\<lambda>p. p \<noteq> tempJsonPath h w')
              (written (snd (runGodotOperation h projectPath operation params w')))
            = filter (\<lambda>p. p \<noteq> tempJsonPath h w') (written w')"
    using assms(2) runGodotOperation_keeps_script by blast
  from ok refused later ops show ?thesis by blast
qed

theorem bridge_script_idempotent_witness:
  "initOperationsScript demo_host (boot demo_files 0) =
     (Inr ''/tmp/godot_operations.gd'',
      (boot demo_files 0)\<lparr>files := demo_files(''/tmp/godot_operations.gd'' \<mapsto> gdScriptContent),
                          written := [''/tmp/godot_operations.gd''],
                          gdScriptPath := Some ''/tmp/godot_operations.gd''\<rparr>) \<and>
   written (snd (initOperationsScript demo_host (snd (initOperationsScript demo_host (boot demo_files 0)))))
     = [''/tmp/godot_operations.gd'']"
proof -
  have a: "''/tmp/godot_operations.gd'' = path_join demo_host (tmpdir demo_host) ''godot_operations.gd''"
    by (simp add: demo_host_def)
  have b: "''/tmp/godot_operations.gd'' \<noteq> []" by simp
  have c: "gdScriptPath (boot demo_files 0) = None" by (simp add: boot_def)
  have d: "\<not> locked demo_host ''/tmp/godot_operations.gd''" by (simp add: demo_host_def)
  note written_once = bridge_script_idempotent[OF a b c, THEN conjunct1, rule_format, OF d]
  then have "initOperationsScript demo_host (boot demo_files 0) =
          (Inr ''/tmp/godot_operations.gd'',
           (boot demo_files 0)\<lparr>files := (files (boot demo_files 0))
                                          (''/tmp/godot_operations.gd'' \<mapsto> gdScriptContent),
                               written := written (boot demo_files 0) @ [''/tmp/godot_operations.gd''],
                               gdScriptPath := Some ''/tmp/godot_operations.gd''\<rparr>)"
   and "initOperationsScript demo_host (snd (initOperationsScript demo_host (boot demo_files 0)))
          = (Inr ''/tmp/godot_operations.gd'', snd (initOperationsScript demo_host (boot demo_files 0)))"
    by blast+
  then show ?thesis
    by (simp add: boot_def)
qed

text \<open>
  C9 as stated fails. On a host that refuses every write the first call raises and
  writes no file, so there is no script; the path has been remembered all the same, and
  the second call returns it with no file behind it.
\<close>

theorem bridge_script_unwritable_counterexample:
  "fst (initOperationsScript locked_host (boot demo_files 0))
     = Inl (Error ''Failed to create GDScript operations file: Error: EACCES'') \<and>
   files (snd (initOperationsScript locked_host (boot demo_files 0))) ''/tmp/godot_operations.gd''
     = None \<and>
   written (snd (initOperationsScript locked_host (boot demo_files 0))) = [] \<and>
   fst (initOperationsScript locked_host (snd (initOperationsScript locked_host (boot demo_files 0))))
     = Inr ''/tmp/godot_operations.gd'' \<and>
   files (snd (initOperationsScript locked_host
                 (snd (initOperationsScript locked_host (boot demo_files 0)))))
     ''/tmp/godot_operations.gd'' = None"
proof -
  have first: "initOperationsScript locked_host (boot demo_files 0)
        = (Inl (Error ''Failed to create GDScript operations file: Error: EACCES''),
           (boot demo_files 0)\<lparr>gdScriptPath := Some ''/tmp/godot_operations.gd''\<rparr>)"
    by (simp add: initOperationsScript_def create_script_def writeFileSync_def Let_def
          error_text_def boot_def locked_host_def demo_host_def)
  have second: "initOperationsScript locked_host
                  ((boot demo_files 0)\<lparr>gdScriptPath := Some ''/tmp/godot_operations.gd''\<rparr>)
        = (Inr ''/tmp/godot_operations.gd'',
           (boot demo_files 0)\<lparr>gdScriptPath := Some ''/tmp/godot_operations.gd''\<rparr>)"
    by (simp add: initOperationsScript_def)
  have none: "files (boot demo_files 0) ''/tmp/godot_operations.gd'' = None"
    and no_write: "written (boot demo_files 0) = []"
    by (simp_all add: boot_def demo_files_def)
  show ?thesis
    by (simp add: first second none no_write)
qed

section \<open>Temporary request file\<close>

lemma demo_found: "findGodotPath demo_host demo_files = Some ''/usr/bin/godot''"
  by (simp add: findGodotPath_def env_override_def demo_host_def potentialPaths_def
        GODOT_PATHS_def existsSync_def demo_files_def)

lemma silent_found: "findGodotPath silent_host demo_files = Some ''/usr/bin/godot''"
  by (simp add: findGodotPath_def env_override_def silent_host_def demo_host_def
        potentialPaths_def GODOT_PATHS_def existsSync_def demo_files_def)

lemma demo_project:
  "existsSync demo_files ''/game/project.godot''"
  "\<not> existsSync demo_files ''/nowhere/project.godot''"
  by (simp_all add: existsSync_def demo_files_def)

lemma digits_42: "digits 42 = ''42''"
  by code_simp

lemma demo_fields:
  "tmpdir demo_host = ''/tmp''"
  "path_join demo_host a b = a @ ''/'' @ b"
  "locked demo_host p = False"
  "json_stringify demo_host m = ''{}''"
  "exec demo_host c d f = Resolved ''Godot Engine v4.2\<newline>{\"success\":true}\<newline>'' []"
  by (simp_all add: demo_host_def)

lemma silent_fields:
  "tmpdir silent_host = ''/tmp''"
  "path_join silent_host a b = a @ ''/'' @ b"
  "locked silent_host p = False"
  "json_stringify silent_host m = ''{}''"
  "exec silent_host c d f = Rejected (ExitError 1) (Some []) (Some [])"
  by (simp_all add: silent_host_def demo_host_def)

text \<open>
  C3. On \<open>silent_host\<close> the engine exits with code 1 having printed nothing, so
  \<open>runGodotCommand\<close> raises; \<open>runGodotOperation\<close> is left at that point and the request
  file is still there afterwards. When the run returns, the file is removed.
\<close>

theorem request_file_left_behind:
  "fst (runGodotOperation silent_host ''/game'' ''get_scene_tree'' Map.empty (boot demo_files 42))
     = Inl (ExitError 1) \<and>
   files (snd (runGodotOperation silent_host ''/game'' ''get_scene_tree'' Map.empty
                 (boot demo_files 42))) ''/tmp/godot_op_42.json'' = Some ''{}'' \<and>
   files (snd (runGodotOperation demo_host ''/game'' ''get_scene_tree'' Map.empty
                 (boot demo_files 42))) ''/tmp/godot_op_42.json'' = None"
proof -
  have s: "runGodotOperation silent_host ''/game'' ''get_scene_tree'' Map.empty (boot demo_files 42)
           = (Inl (ExitError 1),
              (boot demo_files 42)\<lparr>
                files := demo_files(''/tmp/godot_operations.gd'' \<mapsto> gdScriptContent,
                                    ''/tmp/godot_op_42.json'' \<mapsto> ''{}''),
                written := [''/tmp/godot_operations.gd'', ''/tmp/godot_op_42.json''],
                gdScriptPath := Some ''/tmp/godot_operations.gd''\<rparr>)"
    by (simp add: runGodotOperation_def silent_found boot_def truthy_def or_empty_def
          initOperationsScript_def create_script_def writeFileSync_def write_request_def
          tempJsonPath_def digits_42 runGodotCommand_def silent_fields Let_def)
  have d: "files (snd (runGodotOperation demo_host ''/game'' ''get_scene_tree'' Map.empty
                 (boot demo_files 42))) ''/tmp/godot_op_42.json'' = None"
    by (simp add: runGodotOperation_def demo_found boot_def truthy_def or_empty_def
          initOperationsScript_def create_script_def writeFileSync_def write_request_def
          tempJsonPath_def digits_42 runGodotCommand_def demo_fields Let_def
          cleanup_def unlinkSync_def report_stderr_def console_error_def)
  from s d show ?thesis by simp
qed

section \<open>Session State\<close>

lemma demo_run:
  "runProject demo_host ''/game'' (boot demo_files 0) =
     (Inr ''Running Godot project: /game'',
      (boot demo_files 0)\<lparr>
         godotPath := Some ''/usr/bin/godot'',
         godotProcess := Some 0,
         procs := [\<lparr>program = ''/usr/bin/godot'', argv = [''--path'', ''/game''],
                    killed = False, output_buf = []\<rparr>],
         events := [Spawned 0]\<rparr>)"
  by (simp add: runProject_def initGodot_def demo_found boot_def truthy_def or_empty_def
        isGodotProject_def demo_project demo_fields spawn_def Let_def)


text \<open>
  C4. While a project runs, \<open>getDebugOutput\<close> returns a fixed sentence whatever has been
  captured: after the process printed \<open>hello \<close> on stdout and \<open>world\<close> on stderr the
  buffer holds \<open>hello world\<close> and the call returns the placeholder. With no project
  running it reports that.
\<close>

theorem debug_output_is_placeholder:
  "getDebugOutput (w\<lparr>godotProcess := Some pid\<rparr>) = ''Debug output would be shown here'' \<and>
   getDebugOutput (w\<lparr>godotProcess := None\<rparr>) = ''No Godot project is currently running'' \<and>
   (let w1 = on_data Stderr 0 ''world''
               (on_data Stdout 0 ''hello '' (snd (runProject demo_host ''/game'' (boot demo_files 0))))
    in godotProcess w1 = Some 0 \<and>
       output_buf (procs w1 ! 0) = ''hello world'' \<and>
       getDebugOutput w1 = ''Debug output would be shown here'')"
  by (simp add: demo_run getDebugOutput_def on_data_def Let_def)

lemma running_godotProcess [simp]: "running (w\<lparr>godotProcess := x\<rparr>) = running w"
  by (simp add: running_def)

lemma running_godotPath [simp]: "running (w\<lparr>godotPath := x\<rparr>) = running w"
  by (simp add: running_def)












lemma replicate_4: "replicate 4 x = [x, x, x, x]"
  by (simp add: eval_nat_numeral)
















end
